theory Spec2Isabelle
  imports Main
begin

section \<open>JavaScript strings\<close>

text \<open>
  A JavaScript string is a sequence of UTF-16 code units. One \<^typ>\<open>char\<close> of the model
  stands for one code unit in the range 0..255 (ASCII and Latin-1); documents with code
  units above 255 are outside the model. An optional value (\<open>undefined\<close> in the source)
  is \<^typ>\<open>'a option\<close>.
\<close>

definition NL :: char where
  "NL = CHR 0x0A"

definition CR :: char where
  "CR = CHR 0x0D"

definition is_space :: "char \<Rightarrow> bool" where
  \<comment> \<open>\<open>\s\<close> and the characters removed by \<open>trim()\<close>: TAB, LF, VT, FF, CR, SP, NBSP\<close>
  "is_space c = (c \<in> set [CHR 0x09, CHR 0x0A, CHR 0x0B, CHR 0x0C, CHR 0x0D, CHR 0x20, CHR 0xA0])"

definition is_lower_alnum :: "char \<Rightarrow> bool" where
  \<comment> \<open>\<open>[a-z0-9]\<close>\<close>
  "is_lower_alnum c = (c \<in> set ''abcdefghijklmnopqrstuvwxyz0123456789'')"

definition is_word :: "char \<Rightarrow> bool" where
  \<comment> \<open>\<open>\w\<close>, that is \<open>[A-Za-z0-9_]\<close>\<close>
  "is_word c = (is_lower_alnum c \<or> c \<in> set ''ABCDEFGHIJKLMNOPQRSTUVWXYZ_'')"

definition not_line_terminator :: "char \<Rightarrow> bool" where
  \<comment> \<open>the pattern character \<open>.\<close>\<close>
  "not_line_terminator c = (c \<noteq> NL \<and> c \<noteq> CR)"

definition any_char :: "char \<Rightarrow> bool" where
  \<comment> \<open>\<open>[\s\S]\<close>\<close>
  "any_char c = True"

definition lower_char :: "char \<Rightarrow> char" where
  \<comment> \<open>\<open>toLowerCase\<close> on one code unit: A-Z and the Latin-1 capitals (not the times sign)\<close>
  "lower_char c =
     (let n = (of_char c :: nat)
      in if (65 \<le> n \<and> n \<le> 90) \<or> (192 \<le> n \<and> n \<le> 222 \<and> n \<noteq> 215)
         then char_of (n + 32) else c)"

definition toLowerCase :: "string \<Rightarrow> string" where
  "toLowerCase s = map lower_char s"

definition other_case :: "char \<Rightarrow> char" where
  \<comment> \<open>the other case of an ASCII letter; every other character is left as it is\<close>
  "other_case c =
     (case map_of (zip (''abcdefghijklmnopqrstuvwxyz'' @ ''ABCDEFGHIJKLMNOPQRSTUVWXYZ'')
                       (''ABCDEFGHIJKLMNOPQRSTUVWXYZ'' @ ''abcdefghijklmnopqrstuvwxyz'')) c of
        Some d \<Rightarrow> d
      | None \<Rightarrow> c)"

definition trim :: "string \<Rightarrow> string" where
  "trim s = rev (dropWhile is_space (rev (dropWhile is_space s)))"

fun startsWith :: "string \<Rightarrow> string \<Rightarrow> bool" where
  "startsWith s [] = True"
| "startsWith [] (k # ks) = False"
| "startsWith (c # cs) (k # ks) = (c = k \<and> startsWith cs ks)"

fun js_includes :: "string \<Rightarrow> string \<Rightarrow> bool" where
  "js_includes [] k = (k = [])"
| "js_includes (c # cs) k = (startsWith (c # cs) k \<or> js_includes cs k)"

fun indexOf_from :: "int \<Rightarrow> string \<Rightarrow> string \<Rightarrow> int" where
  "indexOf_from i [] k = (if k = [] then i else - 1)"
| "indexOf_from i (c # cs) k = (if startsWith (c # cs) k then i else indexOf_from (i + 1) cs k)"

definition indexOf :: "string \<Rightarrow> string \<Rightarrow> int" where
  \<comment> \<open>\<open>s.indexOf(k)\<close>: the first index at which \<open>k\<close> occurs, or -1\<close>
  "indexOf s k = indexOf_from 0 s k"

definition slice0 :: "string \<Rightarrow> int \<Rightarrow> string" where
  \<comment> \<open>\<open>s.slice(0, e)\<close>: a negative end counts from the end of the string\<close>
  "slice0 s e = (if e < 0 then take (nat (int (length s) + e)) s else take (nat e) s)"

fun join :: "string \<Rightarrow> string list \<Rightarrow> string" where
  "join sep [] = []"
| "join sep [x] = x"
| "join sep (x # y # ys) = x @ sep @ join sep (y # ys)"

definition truthy :: "string option \<Rightarrow> bool" where
  \<comment> \<open>a string value is truthy when it is defined and not empty\<close>
  "truthy v = (case v of None \<Rightarrow> False | Some s \<Rightarrow> s \<noteq> [])"

fun set_add :: "'a list \<Rightarrow> 'a \<Rightarrow> 'a list" where
  \<comment> \<open>\<open>Set.prototype.add\<close> on a set kept in insertion order\<close>
  "set_add acc x = (if x \<in> set acc then acc else acc @ [x])"

definition new_Set :: "'a list \<Rightarrow> 'a list" where
  \<comment> \<open>\<open>[...new Set(xs)]\<close>: the elements in order of first insertion\<close>
  "new_Set xs = foldl set_add [] xs"

section \<open>Regular expressions\<close>

text \<open>
  A pattern is a backtracking matcher: applied to the rest of the input it returns every
  way of matching a prefix, in the order in which the backtracking search of the regular
  expression engine tries them, each with the value of capture group 1 (the patterns of
  the source have at most one group) and the input left over. The first element of the
  list is the match the engine reports at that position.
\<close>

type_synonym rx = "string \<Rightarrow> (string option \<times> string) list"

fun rlit :: "string \<Rightarrow> rx" where
  "rlit [] s = [(None, s)]"
| "rlit (p # ps) [] = []"
| "rlit (p # ps) (c # cs) = (if p = c then rlit ps cs else [])"

fun rlit_i :: "string \<Rightarrow> rx" where
  \<comment> \<open>an ASCII literal under the \<open>i\<close> flag (no \<open>u\<close> flag): a character of the
      pattern matches itself and, when it is a letter, its other case; no code unit above
      127 is identified with an ASCII character\<close>
  "rlit_i [] s = [(None, s)]"
| "rlit_i (p # ps) [] = []"
| "rlit_i (p # ps) (c # cs) = (if c = p \<or> c = other_case p then rlit_i ps cs else [])"

definition rchr :: "(char \<Rightarrow> bool) \<Rightarrow> rx" where
  \<comment> \<open>one character of a class\<close>
  "rchr P s = (case s of [] \<Rightarrow> [] | c # cs \<Rightarrow> if P c then [(None, cs)] else [])"

definition keep_group :: "string option \<Rightarrow> string option \<Rightarrow> string option" where
  \<comment> \<open>group 1 after two parts of a sequence: its value in the second part if it took part
      there, else its value in the first part\<close>
  "keep_group c1 c2 = (if c2 = None then c1 else c2)"

definition rseq :: "rx \<Rightarrow> rx \<Rightarrow> rx" where
  \<comment> \<open>\<open>ab\<close>: every way of matching \<open>a\<close>, each followed by every way of matching \<open>b\<close>\<close>
  "rseq a b s =
     concat (map (\<lambda>(c1, r1). map (\<lambda>(c2, r2). (keep_group c1 c2, r2)) (b r1)) (a s))"

definition ralt :: "rx \<Rightarrow> rx \<Rightarrow> rx" where
  "ralt a b s = a s @ b s"

definition ropt :: "rx \<Rightarrow> rx" where
  \<comment> \<open>\<open>a?\<close>, greedy\<close>
  "ropt a s = a s @ [(None, s)]"

fun rstar :: "(char \<Rightarrow> bool) \<Rightarrow> rx" where
  \<comment> \<open>\<open>[P]*\<close>, greedy: the longest run first\<close>
  "rstar P [] = [(None, [])]"
| "rstar P (c # cs) = (if P c then rstar P cs @ [(None, c # cs)] else [(None, c # cs)])"

fun rlazy :: "(char \<Rightarrow> bool) \<Rightarrow> rx" where
  \<comment> \<open>\<open>[P]*?\<close>, lazy: the shortest run first\<close>
  "rlazy P [] = [(None, [])]"
| "rlazy P (c # cs) = (None, c # cs) # (if P c then rlazy P cs else [])"

definition rplus :: "(char \<Rightarrow> bool) \<Rightarrow> rx" where
  \<comment> \<open>\<open>[P]+\<close>, greedy\<close>
  "rplus P = rseq (rchr P) (rstar P)"

definition rgrp :: "rx \<Rightarrow> rx" where
  \<comment> \<open>capture group 1\<close>
  "rgrp a s = map (\<lambda>(c, r). (Some (take (length s - length r) s), r)) (a s)"

definition rlook :: "rx \<Rightarrow> rx" where
  \<comment> \<open>\<open>(?=a)\<close>\<close>
  "rlook a s = (if a s = [] then [] else [(None, s)])"

definition reos :: rx where
  \<comment> \<open>\<open>$\<close> without the \<open>m\<close> flag\<close>
  "reos s = (if s = [] then [(None, [])] else [])"

record jsmatch =
  m_index :: nat
  m_text :: string
  m_group :: "string option"

definition exec_at :: "rx \<Rightarrow> nat \<Rightarrow> string \<Rightarrow> (jsmatch \<times> string) option" where
  \<comment> \<open>one attempt at index \<open>i\<close>, where the rest of the input is \<open>s\<close>\<close>
  "exec_at m i s =
     (case m s of
        [] \<Rightarrow> None
      | (c, r) # _ \<Rightarrow>
          Some (\<lparr>m_index = i, m_text = take (length s - length r) s, m_group = c\<rparr>, r))"

fun search_from :: "rx \<Rightarrow> nat \<Rightarrow> string \<Rightarrow> jsmatch option" where
  "search_from m i [] = map_option fst (exec_at m i [])"
| "search_from m i (c # cs) =
     (case exec_at m i (c # cs) of
        Some (x, r) \<Rightarrow> Some x
      | None \<Rightarrow> search_from m (Suc i) cs)"

definition js_match :: "rx \<Rightarrow> string \<Rightarrow> jsmatch option" where
  \<comment> \<open>\<open>s.match(re)\<close> for a pattern without the \<open>g\<close> flag: the leftmost match\<close>
  "js_match m s = search_from m 0 s"

definition js_match_start :: "rx \<Rightarrow> string \<Rightarrow> jsmatch option" where
  \<comment> \<open>\<open>s.match(re)\<close> for a pattern that begins with \<open>^\<close> (no \<open>m\<close> flag): it can only
      match at index 0\<close>
  "js_match_start m s = map_option fst (exec_at m 0 s)"

function matchAll_from :: "rx \<Rightarrow> nat \<Rightarrow> string \<Rightarrow> jsmatch list" where
  "matchAll_from m i [] = (case exec_at m i [] of None \<Rightarrow> [] | Some (x, r) \<Rightarrow> [x])"
| "matchAll_from m i (c # cs) =
     (case exec_at m i (c # cs) of
        None \<Rightarrow> matchAll_from m (Suc i) cs
      | Some (x, r) \<Rightarrow>
          x # (if length r < Suc (length cs)
               then matchAll_from m (i + (Suc (length cs) - length r)) r
               else matchAll_from m (Suc i) cs))"
  by pat_completeness auto
termination
  by (relation "measure (\<lambda>(m, i, s). length s)") auto

definition matchAll :: "rx \<Rightarrow> string \<Rightarrow> jsmatch list" where
  \<comment> \<open>\<open>[...s.matchAll(re)]\<close> for a pattern with the \<open>g\<close> flag: the successive
      non-overlapping matches, left to right; after an empty match the search advances by
      one character\<close>
  "matchAll m s = matchAll_from m 0 s"

function split_from :: "rx \<Rightarrow> string \<Rightarrow> string \<Rightarrow> string list" where
  "split_from m acc [] = [rev acc]"
| "split_from m acc (c # cs) =
     (case m (c # cs) of
        [] \<Rightarrow> split_from m (c # acc) cs
      | (g, r) # _ \<Rightarrow>
          if length r < Suc (length cs) then rev acc # split_from m [] r
          else split_from m (c # acc) cs)"
  by pat_completeness auto
termination
  by (relation "measure (\<lambda>(m, acc, s). length s)") auto

definition js_split :: "rx \<Rightarrow> string \<Rightarrow> string list" where
  \<comment> \<open>\<open>s.split(re)\<close> for a separator pattern without groups that cannot match the empty
      string (both separators of the source are such); \<open>acc\<close> is the current piece,
      reversed\<close>
  "js_split m s = split_from m [] s"

function replace_all :: "rx \<Rightarrow> string \<Rightarrow> string \<Rightarrow> string" where
  "replace_all m rep [] = (case m [] of [] \<Rightarrow> [] | x # _ \<Rightarrow> rep)"
| "replace_all m rep (c # cs) =
     (case m (c # cs) of
        [] \<Rightarrow> c # replace_all m rep cs
      | (g, r) # _ \<Rightarrow>
          if length r < Suc (length cs) then rep @ replace_all m rep r
          else rep @ c # replace_all m rep cs)"
  by pat_completeness auto
termination
  by (relation "measure (\<lambda>(m, rep, s). length s)") auto

definition ralts :: "rx list \<Rightarrow> rx" where
  \<comment> \<open>\<open>a|b|...\<close>: the alternatives are tried from left to right\<close>
  "ralts xs = foldr ralt xs (\<lambda>s. [])"

definition group1 :: "jsmatch \<Rightarrow> string" where
  \<comment> \<open>\<open>match[1]\<close> of a pattern whose group takes part in every match\<close>
  "group1 m = (case m_group m of Some g \<Rightarrow> g | None \<Rightarrow> [])"

definition or_else :: "string option \<Rightarrow> string \<Rightarrow> string" where
  \<comment> \<open>\<open>v || d\<close> where \<open>d\<close> is a string\<close>
  "or_else v d = (case v of None \<Rightarrow> d | Some s \<Rightarrow> if s \<noteq> [] then s else d)"

definition or_opt :: "string option \<Rightarrow> string option \<Rightarrow> string option" where
  \<comment> \<open>\<open>v || w\<close> where \<open>w\<close> may be undefined\<close>
  "or_opt v w = (if truthy v then v else w)"

section \<open>The patterns of MarkdownPracticeSource.ts\<close>

definition h2_separator :: rx where
  \<comment> \<open>\<open>/\n(?=## )/\<close>\<close>
  "h2_separator = rseq (rlit ''\<newline>'') (rlook (rlit ''## ''))"

definition heading_rx :: rx where
  \<comment> \<open>\<open>/^## (.+)\n/\<close>, used with \<open>js_match_start\<close> for the \<open>^\<close>\<close>
  "heading_rx = rseq (rlit ''## '') (rseq (rgrp (rplus not_line_terminator)) (rlit ''\<newline>''))"

definition fence_rx :: rx where
  \<comment> \<open>\<open>/```[\w]*\n([\s\S]*?)```/\<close>\<close>
  "fence_rx =
     rseq (rlit ''```'') (rseq (rstar is_word) (rseq (rlit ''\<newline>'')
       (rseq (rgrp (rlazy any_char)) (rlit ''```''))))"

definition colon_or_space :: "char \<Rightarrow> bool" where
  \<comment> \<open>\<open>[:\s]\<close>\<close>
  "colon_or_space c = (c = CHR '':'' \<or> is_space c)"

definition good_label :: rx where
  \<comment> \<open>\<open>(?:good|correct|do|preferred|recommended)\<close> under the \<open>i\<close> flag\<close>
  "good_label =
     ralts [rlit_i ''good'', rlit_i ''correct'', rlit_i ''do'', rlit_i ''preferred'',
            rlit_i ''recommended'']"

definition bad_label :: rx where
  \<comment> \<open>\<open>(?:bad|incorrect|don'?t|avoid|wrong)\<close> under the \<open>i\<close> flag\<close>
  "bad_label =
     ralts [rlit_i ''bad'', rlit_i ''incorrect'',
            rseq (rlit_i ''don'') (rseq (ropt (rlit_i [CHR 0x27])) (rlit_i ''t'')),
            rlit_i ''avoid'', rlit_i ''wrong'']"

definition labelled :: "rx \<Rightarrow> rx" where
  \<comment> \<open>\<open>label[:\s]*\n```[\w]*\n([\s\S]*?)```\<close>; the part after the label has no letter
      and only classes that hold both cases, so the \<open>i\<close> flag does not change it\<close>
  "labelled label = rseq label (rseq (rstar colon_or_space) (rseq (rlit ''\<newline>'') fence_rx))"

definition good_rx :: rx where
  \<comment> \<open>\<open>/(?:good|correct|do|preferred|recommended)[:\s]*\n```[\w]*\n([\s\S]*?)```/i\<close>\<close>
  "good_rx = labelled good_label"

definition bad_rx :: rx where
  \<comment> \<open>\<open>/(?:bad|incorrect|don'?t|avoid|wrong)[:\s]*\n```[\w]*\n([\s\S]*?)```/i\<close>\<close>
  "bad_rx = labelled bad_label"

definition paragraph_separator :: rx where
  \<comment> \<open>\<open>/\n\n+/\<close>\<close>
  "paragraph_separator = rseq (rlit ''\<newline>'') (rplus (\<lambda>c. c = NL))"

definition section_rx :: "string \<Rightarrow> rx" where
  \<comment> \<open>\<open>new RegExp(`### ${sectionName}\\s*\\n([\\s\\S]*?)(?=\\n###|$)`, 'i')\<close>\<close>
  "section_rx sectionName =
     rseq (rlit_i (''### '' @ sectionName)) (rseq (rstar is_space) (rseq (rlit_i ''\<newline>'')
       (rseq (rgrp (rlazy any_char)) (rlook (ralt (rlit_i ''\<newline>###'') reos)))))"

definition word_or_hyphen :: "char \<Rightarrow> bool" where
  \<comment> \<open>\<open>[\w-]\<close>\<close>
  "word_or_hyphen c = (is_word c \<or> c = CHR ''-'')"

definition rule_char :: "char \<Rightarrow> bool" where
  \<comment> \<open>\<open>[@\w/-]\<close>\<close>
  "rule_char c = (c = CHR ''@'' \<or> is_word c \<or> c = CHR ''/'' \<or> c = CHR ''-'')"

definition lint_patterns :: "rx list" where
  \<comment> \<open>\<open>/@typescript-eslint\/[\w-]+/g\<close>, \<open>/eslint:?\s*([\w-]+)/gi\<close>,
      \<open>/\[`?([@\w/-]+)`?\]\s*rule/gi\<close>\<close>
  "lint_patterns =
     [rseq (rlit ''@typescript-eslint/'') (rplus word_or_hyphen),
      rseq (rlit_i ''eslint'') (rseq (ropt (rlit_i '':'')) (rseq (rstar is_space)
        (rgrp (rplus word_or_hyphen)))),
      rseq (rlit_i ''['') (rseq (ropt (rlit_i ''`'')) (rseq (rgrp (rplus rule_char))
        (rseq (ropt (rlit_i ''`'')) (rseq (rlit_i '']'') (rseq (rstar is_space)
          (rlit_i ''rule''))))))]"

definition tag_rx :: rx where
  \<comment> \<open>\<open>/```(\w+)/g\<close>\<close>
  "tag_rx = rseq (rlit ''```'') (rgrp (rplus is_word))"

definition non_alnum_run :: rx where
  \<comment> \<open>\<open>/[^a-z0-9]+/g\<close>\<close>
  "non_alnum_run = rplus (\<lambda>c. \<not> is_lower_alnum c)"

section \<open>Data model\<close>

text \<open>
  The front matter returned by the splitter, restricted to the keys the source reads. The
  scalar keys are modelled as optional strings and \<open>tags\<close> as an optional list of strings;
  \<open>None\<close> is a key that is absent.
\<close>

record frontmatter =
  fm_title :: "string option"
  fm_language :: "string option"
  fm_framework :: "string option"
  fm_category :: "string option"
  fm_severity :: "string option"
  fm_tags :: "string list option"

definition no_frontmatter :: frontmatter where
  "no_frontmatter =
     \<lparr>fm_title = None, fm_language = None, fm_framework = None, fm_category = None,
      fm_severity = None, fm_tags = None\<rparr>"

record practice =
  p_id :: string
  p_title :: string
  p_description :: string
  p_category :: string
  p_severity :: string
  p_language :: string
  p_framework :: "string option"
  p_goodExample :: "string option"
  p_badExample :: "string option"
  p_rationale :: "string option"
  p_lintRules :: "string list"
  p_tags :: "string list"

record source_config =
  cfg_name :: string
  cfg_path :: string
  cfg_language :: "string option"
  cfg_framework :: "string option"

record practice_metadata =
  pm_source :: string
  pm_path :: string
  pm_practiceId :: string
  pm_category :: string
  pm_severity :: string
  pm_language :: string
  pm_framework :: "string option"
  pm_tags :: "string list"
  pm_hasGoodExample :: bool
  pm_hasBadExample :: bool
  pm_lintRules :: "string list"

record overview_metadata =
  om_source :: string
  om_path :: string
  om_language :: string
  om_framework :: "string option"
  om_practiceCount :: nat
  om_categories :: "string list"

datatype metadata = PracticeMeta practice_metadata | OverviewMeta overview_metadata

record document =
  doc_id :: string
  doc_type :: string
  doc_content :: string
  doc_title :: string
  doc_metadata :: metadata

section \<open>The field extractors\<close>

definition slugify :: "string \<Rightarrow> string" where
  \<comment> \<open>the last step is \<open>.replace(/^-|-$/g, '')\<close>: without the \<open>m\<close> flag \<open>^-\<close> matches only
      at index 0 and \<open>-$\<close> only at the last index, so one leading and one trailing hyphen
      are removed\<close>
  "slugify text =
     (let s1 = replace_all non_alnum_run ''-'' (toLowerCase text);
          s2 = (case s1 of [] \<Rightarrow> [] | c # cs \<Rightarrow> if c = CHR ''-'' then cs else s1)
      in if s2 \<noteq> [] \<and> last s2 = CHR ''-'' then butlast s2 else s2)"

definition extractCategory :: "string \<Rightarrow> string \<Rightarrow> frontmatter \<Rightarrow> string" where
  "extractCategory title content fm =
     (if truthy (fm_category fm) then the (fm_category fm)
      else
        let text = toLowerCase (title @ '' '' @ content) in
        if js_includes text ''naming'' \<or> js_includes text ''convention'' then ''naming''
        else if js_includes text ''format'' \<or> js_includes text ''indent''
                \<or> js_includes text ''spacing'' then ''formatting''
        else if js_includes text ''architect'' \<or> js_includes text ''pattern''
                \<or> js_includes text ''structure'' then ''architecture''
        else if js_includes text ''test'' \<or> js_includes text ''spec''
                \<or> js_includes text ''mock'' then ''testing''
        else if js_includes text ''security'' \<or> js_includes text ''vulnerab''
                \<or> js_includes text ''auth'' then ''security''
        else if js_includes text ''performance'' \<or> js_includes text ''optimize''
                \<or> js_includes text ''memory'' then ''performance''
        else if js_includes text ''document'' \<or> js_includes text ''comment''
                \<or> js_includes text ''readme'' then ''documentation''
        else if js_includes text ''error'' \<or> js_includes text ''exception''
                \<or> js_includes text ''throw'' then ''error-handling''
        else if js_includes text ''log'' \<or> js_includes text ''trace''
                \<or> js_includes text ''debug'' then ''logging''
        else if js_includes text ''depend'' \<or> js_includes text ''package''
                \<or> js_includes text ''import'' then ''dependency-management''
        else ''general'')"

definition extractSeverity :: "string \<Rightarrow> frontmatter \<Rightarrow> string" where
  "extractSeverity content fm =
     (if truthy (fm_severity fm) then the (fm_severity fm)
      else
        let lower = toLowerCase content in
        if js_includes lower ''must'' \<or> js_includes lower ''required''
           \<or> js_includes lower ''always'' then ''error''
        else if js_includes lower ''should'' \<or> js_includes lower ''recommended''
          then ''warning''
        else if js_includes lower ''could'' \<or> js_includes lower ''consider''
                \<or> js_includes lower ''may'' then ''suggestion''
        else ''suggestion'')"

definition labelled_example :: "rx \<Rightarrow> string \<Rightarrow> string option" where
  \<comment> \<open>\<open>content.match(re)\<close>, then \<open>match[1].trim()\<close> when there is a match\<close>
  "labelled_example re content = map_option (\<lambda>m. trim (group1 m)) (js_match re content)"

definition beforeFirst :: "string \<Rightarrow> jsmatch list \<Rightarrow> string" where
  \<comment> \<open>\<open>content.slice(0, content.indexOf(codeBlocks[0][0])).toLowerCase()\<close>\<close>
  "beforeFirst content codeBlocks =
     toLowerCase (slice0 content (indexOf content (m_text (codeBlocks ! 0))))"

definition fallback_examples ::
  "string \<Rightarrow> string option \<times> string option \<Rightarrow> string option \<times> string option" where
  \<comment> \<open>the body of \<open>if (!goodExample && !badExample)\<close>\<close>
  "fallback_examples content labelled_pair =
     (let codeBlocks = matchAll fence_rx content in
      if 2 \<le> length codeBlocks then
        (if js_includes (beforeFirst content codeBlocks) ''avoid''
            \<or> js_includes (beforeFirst content codeBlocks) ''bad''
            \<or> js_includes (beforeFirst content codeBlocks) ''don't''
         then (Some (trim (group1 (codeBlocks ! 1))), Some (trim (group1 (codeBlocks ! 0))))
         else (Some (trim (group1 (codeBlocks ! 0))),
               if 1 < length codeBlocks then Some (trim (group1 (codeBlocks ! 1)))
               else snd labelled_pair))
      else if length codeBlocks = 1 then
        (Some (trim (group1 (codeBlocks ! 0))), snd labelled_pair)
      else labelled_pair)"

definition extractExamples :: "string \<Rightarrow> string option \<times> string option" where
  \<comment> \<open>returns \<open>(goodExample, badExample)\<close>\<close>
  "extractExamples content =
     (let goodExample = labelled_example good_rx content;
          badExample = labelled_example bad_rx content
      in if \<not> truthy goodExample \<and> \<not> truthy badExample
         then fallback_examples content (goodExample, badExample)
         else (goodExample, badExample))"

fun first_paragraph :: "string list \<Rightarrow> string option" where
  "first_paragraph [] = None"
| "first_paragraph (para # paragraphs) =
     (let trimmed = trim para
      in if \<not> startsWith trimmed ''```'' \<and> \<not> startsWith trimmed ''#'' \<and> 0 < length trimmed
         then Some trimmed
         else first_paragraph paragraphs)"

definition extractDescription :: "string \<Rightarrow> string" where
  "extractDescription content =
     (case first_paragraph (js_split paragraph_separator content) of
        Some trimmed \<Rightarrow> trimmed
      | None \<Rightarrow> trim (take 200 content))"

definition extractSection :: "string \<Rightarrow> string \<Rightarrow> string option" where
  "extractSection content sectionName =
     map_option (\<lambda>m. trim (group1 m)) (js_match (section_rx sectionName) content)"

definition push_matches :: "string list \<Rightarrow> jsmatch list \<Rightarrow> string list" where
  \<comment> \<open>\<open>for (const match of matches) rules.push(match[1] || match[0])\<close>\<close>
  "push_matches rules matches =
     foldl (\<lambda>rules m. rules @ [or_else (m_group m) (m_text m)]) rules matches"

definition extractLintRules :: "string \<Rightarrow> string list" where
  "extractLintRules content =
     new_Set (foldl (\<lambda>rules pattern. push_matches rules (matchAll pattern content))
                [] lint_patterns)"

definition extractTags :: "string \<Rightarrow> frontmatter \<Rightarrow> string list" where
  "extractTags content fm =
     (let tags = (case fm_tags fm of
                    None \<Rightarrow> []
                  | Some ts \<Rightarrow> foldl (\<lambda>tags t. set_add tags (toLowerCase t)) [] ts)
      in foldl (\<lambda>tags m. if truthy (m_group m) \<and> group1 m \<noteq> ''text''
                          then set_add tags (toLowerCase (group1 m)) else tags)
           tags (matchAll tag_rx content))"

section \<open>Sections and practices\<close>

definition parse_section :: "frontmatter \<Rightarrow> string \<Rightarrow> practice option" where
  \<comment> \<open>one turn of the loop of \<open>parsePractices\<close>; \<open>None\<close> is the \<open>continue\<close>\<close>
  "parse_section fm section =
     (case js_match_start heading_rx section of
        None \<Rightarrow> None
      | Some m \<Rightarrow>
          let title = trim (group1 m);
              sectionContent = drop (length (m_text m)) section;
              examples = extractExamples sectionContent
          in Some \<lparr>p_id = slugify title,
                   p_title = title,
                   p_description = extractDescription sectionContent,
                   p_category = extractCategory title sectionContent fm,
                   p_severity = extractSeverity sectionContent fm,
                   p_language = or_else (fm_language fm) ''general'',
                   p_framework = fm_framework fm,
                   p_goodExample = fst examples,
                   p_badExample = snd examples,
                   p_rationale = extractSection sectionContent ''rationale'',
                   p_lintRules = extractLintRules sectionContent,
                   p_tags = extractTags sectionContent fm\<rparr>)"

definition parsePractices :: "string \<Rightarrow> frontmatter \<Rightarrow> practice list" where
  "parsePractices content fm =
     List.map_filter (parse_section fm) (js_split h2_separator content)"

section \<open>Documents\<close>

definition formatPracticeContent :: "practice \<Rightarrow> string" where
  "formatPracticeContent p =
     (let parts = [''# '' @ p_title p, [], p_description p];
          parts = (if truthy (p_rationale p)
                   then parts @ [[], ''## Rationale'', the (p_rationale p)] else parts);
          parts = (if truthy (p_goodExample p)
                   then parts @ [[], ''## Good Example'', ''```'', the (p_goodExample p), ''```'']
                   else parts);
          parts = (if truthy (p_badExample p)
                   then parts @ [[], ''## Bad Example'', ''```'', the (p_badExample p), ''```'']
                   else parts);
          parts = (if 0 < length (p_lintRules p)
                   then parts @ [[], ''## Related Lint Rules'', join '', '' (p_lintRules p)]
                   else parts)
      in join ''\<newline>'' parts)"

definition generateId :: "source_config \<Rightarrow> string \<Rightarrow> string \<Rightarrow> string" where
  "generateId cfg relativePath practiceId =
     cfg_name cfg @ '':'' @ relativePath @ ''#'' @ practiceId"

definition practice_document :: "source_config \<Rightarrow> string \<Rightarrow> practice \<Rightarrow> document" where
  \<comment> \<open>the \<open>doc\<close> built in the loop of \<open>loadPracticeDocument\<close>\<close>
  "practice_document cfg relativePath p =
     \<lparr>doc_id = generateId cfg relativePath (p_id p),
      doc_type = ''practice'',
      doc_content = formatPracticeContent p,
      doc_title = p_title p,
      doc_metadata = PracticeMeta
        \<lparr>pm_source = cfg_name cfg,
         pm_path = relativePath,
         pm_practiceId = p_id p,
         pm_category = p_category p,
         pm_severity = p_severity p,
         pm_language = or_else (Some (p_language p)) (or_else (cfg_language cfg) ''general''),
         pm_framework = or_opt (p_framework p) (cfg_framework cfg),
         pm_tags = p_tags p,
         pm_hasGoodExample = truthy (p_goodExample p),
         pm_hasBadExample = truthy (p_badExample p),
         pm_lintRules = p_lintRules p\<rparr>\<rparr>"

definition overview_document ::
  "source_config \<Rightarrow> string \<Rightarrow> string \<Rightarrow> string \<Rightarrow> frontmatter \<Rightarrow> practice list \<Rightarrow> document" where
  \<comment> \<open>\<open>base\<close> is \<open>path.basename(filePath, '.md')\<close>\<close>
  "overview_document cfg relativePath base body fm practices =
     \<lparr>doc_id = cfg_name cfg @ '':'' @ relativePath,
      doc_type = ''style-guide'',
      doc_content = body,
      doc_title = or_else (fm_title fm) base,
      doc_metadata = OverviewMeta
        \<lparr>om_source = cfg_name cfg,
         om_path = relativePath,
         om_language = or_else (fm_language fm) (or_else (cfg_language cfg) ''general''),
         om_framework = or_opt (fm_framework fm) (cfg_framework cfg),
         om_practiceCount = length practices,
         om_categories = new_Set (map p_category practices)\<rparr>\<rparr>"

text \<open>
  The collaborators of the source that are not part of the repository are parameters of the
  model: reading a file, the path functions, and the front-matter splitter \<open>matter\<close> of the
  gray-matter package, which returns the metadata and the body or throws. The splitter
  keeps a state of its own from one call to the next (gray-matter caches the contents it
  is given), so a call with a content it has been given before need not end as the first
  one did: the splitter is a function of its state \<open>'m\<close> and of the content, and returns
  its new state with its result.
\<close>

datatype error = Error string

type_synonym 'm splitter = "'m \<Rightarrow> string \<Rightarrow> (error + (frontmatter \<times> string)) \<times> 'm"

record 'm env =
  readFile :: "string \<Rightarrow> error + string"
  relative :: "string \<Rightarrow> string"
  basename_md :: "string \<Rightarrow> string"
  matter :: "'m splitter"

type_synonym cache = "string \<Rightarrow> document option"

definition cache_all :: "document list \<Rightarrow> cache \<Rightarrow> cache" where
  \<comment> \<open>\<open>this.documentCache.set(doc.id, doc)\<close> for each document in turn\<close>
  "cache_all docs c = foldl (\<lambda>c d. c(doc_id d \<mapsto> d)) c docs"

definition loadPracticeDocument ::
  "source_config \<Rightarrow> 'm env \<Rightarrow> cache \<Rightarrow> 'm \<Rightarrow> string
     \<Rightarrow> (error + (document list \<times> cache)) \<times> 'm" where
  \<comment> \<open>\<open>c\<close> is \<open>this.documentCache\<close> and \<open>ms\<close> the state of the splitter before the call; an
      error is the exception that leaves the function\<close>
  "loadPracticeDocument cfg e c ms filePath =
     (case readFile e filePath of
        Inl err \<Rightarrow> (Inl err, ms)
      | Inr content \<Rightarrow>
          let relativePath = relative e filePath in
          (case matter e ms content of
             (Inl err, ms') \<Rightarrow> (Inl err, ms')
           | (Inr (fm, body), ms') \<Rightarrow>
               let practices = parsePractices body fm;
                   documents = map (practice_document cfg relativePath) practices
                     @ [overview_document cfg relativePath (basename_md e filePath) body fm practices]
               in (Inr (documents, cache_all documents c), ms')))"

record 'm fetch_state =
  fs_documents :: "document list"
  fs_cache :: cache
  fs_matter :: 'm
  fs_warnings :: "(string \<times> error) list"

fun fetch_files ::
  "source_config \<Rightarrow> 'm env \<Rightarrow> string list \<Rightarrow> 'm fetch_state \<Rightarrow> 'm fetch_state" where
  \<comment> \<open>the loop of \<open>fetchDocuments\<close> with its \<open>try\<close>/\<open>catch\<close>\<close>
  "fetch_files cfg e [] st = st"
| "fetch_files cfg e (file # files) st =
     (case loadPracticeDocument cfg e (fs_cache st) (fs_matter st) file of
        (Inr (docs, c), ms) \<Rightarrow>
          fetch_files cfg e files
            (st\<lparr>fs_documents := fs_documents st @ docs, fs_cache := c, fs_matter := ms\<rparr>)
      | (Inl err, ms) \<Rightarrow>
          fetch_files cfg e files
            (st\<lparr>fs_matter := ms, fs_warnings := fs_warnings st @ [(file, err)]\<rparr>))"

definition fetchDocuments ::
  "source_config \<Rightarrow> 'm env \<Rightarrow> string list \<Rightarrow> cache \<Rightarrow> 'm \<Rightarrow> 'm fetch_state" where
  \<comment> \<open>\<open>files\<close> is the result of the \<open>glob\<close> call; \<open>fs_documents\<close> is the result of the
      function, \<open>fs_warnings\<close> what it logs, \<open>fs_cache\<close> and \<open>fs_matter\<close> the document cache
      and the state of the splitter it leaves behind\<close>
  "fetchDocuments cfg e files c ms =
     fetch_files cfg e files
       \<lparr>fs_documents = [], fs_cache = c, fs_matter = ms, fs_warnings = []\<rparr>"

section \<open>Tables and notions used to state the properties\<close>

definition first_rule :: "(string \<times> string list) list \<Rightarrow> string \<Rightarrow> string option" where
  \<comment> \<open>the label of the first rule of an ordered table one of whose keywords occurs in
      \<open>text\<close>\<close>
  "first_rule rules text =
     map_option fst (find (\<lambda>(label, keywords). \<exists>k \<in> set keywords. js_includes text k) rules)"

definition small_letters :: string where
  "small_letters = ''abcdefghijklmnopqrstuvwxyz''"

definition capital_letters :: string where
  "capital_letters = ''ABCDEFGHIJKLMNOPQRSTUVWXYZ''"

definition same_letter :: "char \<Rightarrow> char \<Rightarrow> bool" where
  \<comment> \<open>the character \<open>c\<close> of a text is the character \<open>k\<close> of a keyword up to case: it is
      \<open>k\<close>, or \<open>k\<close> is a small letter and \<open>c\<close> is its capital\<close>
  "same_letter c k = (c = k \<or> (k, c) \<in> set (zip small_letters capital_letters))"

fun starts_ci :: "string \<Rightarrow> string \<Rightarrow> bool" where
  \<comment> \<open>the text begins with the keyword, up to case\<close>
  "starts_ci s [] = True"
| "starts_ci [] (k # ks) = False"
| "starts_ci (c # cs) (k # ks) = (same_letter c k \<and> starts_ci cs ks)"

fun occurs_ci :: "string \<Rightarrow> string \<Rightarrow> bool" where
  \<comment> \<open>the keyword occurs in the text, up to case\<close>
  "occurs_ci [] k = (k = [])"
| "occurs_ci (c # cs) k = (starts_ci (c # cs) k \<or> occurs_ci cs k)"

definition first_rule_ci :: "(string \<times> string list) list \<Rightarrow> string \<Rightarrow> string option" where
  \<comment> \<open>the label of the first rule of an ordered table one of whose keywords occurs in
      \<open>text\<close>, up to case\<close>
  "first_rule_ci rules text =
     map_option fst (find (\<lambda>(label, keywords). \<exists>k \<in> set keywords. occurs_ci text k) rules)"

definition category_rules :: "(string \<times> string list) list" where
  "category_rules =
     [(''naming'', [''naming'', ''convention'']),
      (''formatting'', [''format'', ''indent'', ''spacing'']),
      (''architecture'', [''architect'', ''pattern'', ''structure'']),
      (''testing'', [''test'', ''spec'', ''mock'']),
      (''security'', [''security'', ''vulnerab'', ''auth'']),
      (''performance'', [''performance'', ''optimize'', ''memory'']),
      (''documentation'', [''document'', ''comment'', ''readme'']),
      (''error-handling'', [''error'', ''exception'', ''throw'']),
      (''logging'', [''log'', ''trace'', ''debug'']),
      (''dependency-management'', [''depend'', ''package'', ''import''])]"

definition severity_tiers :: "(string \<times> string list) list" where
  "severity_tiers =
     [(''error'', [''must'', ''required'', ''always'']),
      (''warning'', [''should'', ''recommended'']),
      (''suggestion'', [''could'', ''consider'', ''may''])]"





definition consumes :: "rx \<Rightarrow> bool" where
  \<comment> \<open>every result of the pattern leaves a suffix of its input\<close>
  "consumes m \<longleftrightarrow> (\<forall>s c r. (c, r) \<in> set (m s) \<longrightarrow> (\<exists>p. s = p @ r))"



definition body_documents ::
  "source_config \<Rightarrow> 'm env \<Rightarrow> string \<Rightarrow> frontmatter \<Rightarrow> string \<Rightarrow> document list" where
  \<comment> \<open>the documents made from the metadata and the body of one file: its practice
      documents, then its overview\<close>
  "body_documents cfg e filePath fm body =
     map (practice_document cfg (relative e filePath)) (parsePractices body fm)
     @ [overview_document cfg (relative e filePath) (basename_md e filePath) body fm
          (parsePractices body fm)]"

fun file_outcomes ::
  "source_config \<Rightarrow> 'm env \<Rightarrow> 'm \<Rightarrow> string list \<Rightarrow> (string \<times> (error + document list)) list" where
  \<comment> \<open>what becomes of each file of a batch, in turn: the error raised by reading or
      splitting it, or its documents; each call of the splitter starts from the state left
      by the call before\<close>
  "file_outcomes cfg e ms [] = []"
| "file_outcomes cfg e ms (file # files) =
     (case readFile e file of
        Inl err \<Rightarrow> (file, Inl err) # file_outcomes cfg e ms files
      | Inr content \<Rightarrow>
          (case matter e ms content of
             (Inl err, ms') \<Rightarrow> (file, Inl err) # file_outcomes cfg e ms' files
           | (Inr (fm, body), ms') \<Rightarrow>
               (file, Inr (body_documents cfg e file fm body)) # file_outcomes cfg e ms' files))"

definition outcome_documents :: "string \<times> (error + document list) \<Rightarrow> document list" where
  "outcome_documents x = (case snd x of Inl err \<Rightarrow> [] | Inr docs \<Rightarrow> docs)"

definition outcome_warnings :: "string \<times> (error + document list) \<Rightarrow> (string \<times> error) list" where
  "outcome_warnings x = (case snd x of Inl err \<Rightarrow> [(fst x, err)] | Inr docs \<Rightarrow> [])"

definition doc_language :: "document \<Rightarrow> string" where
  \<comment> \<open>\<open>doc.metadata.language\<close>\<close>
  "doc_language d =
     (case doc_metadata d of PracticeMeta pm \<Rightarrow> pm_language pm | OverviewMeta om \<Rightarrow> om_language om)"


definition sample_config :: source_config where
  "sample_config =
     \<lparr>cfg_name = ''team'', cfg_path = ''/p'', cfg_language = Some ''typescript'',
      cfg_framework = None\<rparr>"

definition sample_env :: "'m splitter \<Rightarrow> 'm env" where
  \<comment> \<open>an environment with four files and the given front-matter splitter; the files
      \<open>/p/b.md\<close> and \<open>/p/c.md\<close> have the same content, which opens a front-matter block that
      is not valid YAML\<close>
  "sample_env split =
     \<lparr>readFile = (\<lambda>f. if f = ''/p/a.md'' then Inr ''## A\<newline>x\<newline>''
                       else if f = ''/p/b.md'' then Inr ''---\<newline>x: [\<newline>---\<newline>## B\<newline>y\<newline>''
                       else if f = ''/p/c.md'' then Inr ''---\<newline>x: [\<newline>---\<newline>## B\<newline>y\<newline>''
                       else if f = ''/p/d.md'' then Inr ''## A\<newline>x\<newline>## A\<newline>y\<newline>''
                       else Inl (Error ''ENOENT'')),
      relative = drop 3,
      basename_md = (\<lambda>f. take 1 (drop 3 f)),
      matter = split\<rparr>"

definition plain_matter :: "'m splitter" where
  \<comment> \<open>a splitter for documents without front matter, which keeps no state\<close>
  "plain_matter ms content = (Inr (no_frontmatter, content), ms)"

definition caching_matter :: "string list splitter" where
  \<comment> \<open>a splitter with a cache, as gray-matter has one, for the documents of the sample
      environment. Its state is the list of the contents it has been given. It records a
      new content before it parses it, and raises if the content opens a front-matter block
      (the only such content of the sample is not valid YAML); a content it has recorded is
      answered from the cache, with the record made before parsing: no metadata, and the
      whole content as the body\<close>
  "caching_matter seen content =
     (if content \<in> set seen then (Inr (no_frontmatter, content), seen)
      else if startsWith content ''---'' then (Inl (Error ''YAMLException''), content # seen)
      else (Inr (no_frontmatter, content), content # seen))"

section \<open>Properties of the extractor\<close>

subsection \<open>Sections of a document\<close>

lemma parsePractices_member:
  "p \<in> set (parsePractices body fm) \<Longrightarrow> \<exists>sec. parse_section fm sec = Some p"
  by (auto simp: parsePractices_def List.map_filter_def)

lemma parse_section_SomeD:
  assumes "parse_section fm sec = Some p"
  shows "\<exists>m. js_match_start heading_rx sec = Some m
           \<and> p_title p = trim (group1 m)
           \<and> p_id p = slugify (p_title p)
           \<and> p_category p = extractCategory (p_title p) (drop (length (m_text m)) sec) fm
           \<and> p_severity p = extractSeverity (drop (length (m_text m)) sec) fm
           \<and> p_language p = or_else (fm_language fm) ''general''
           \<and> p_framework p = fm_framework fm
           \<and> p_goodExample p = fst (extractExamples (drop (length (m_text m)) sec))
           \<and> p_badExample p = snd (extractExamples (drop (length (m_text m)) sec))"
proof (cases "js_match_start heading_rx sec")
  case None
  with assms show ?thesis by (simp add: parse_section_def)
next
  case (Some m)
  with assms have "p = \<lparr>p_id = slugify (trim (group1 m)),
                   p_title = trim (group1 m),
                   p_description = extractDescription (drop (length (m_text m)) sec),
                   p_category = extractCategory (trim (group1 m)) (drop (length (m_text m)) sec) fm,
                   p_severity = extractSeverity (drop (length (m_text m)) sec) fm,
                   p_language = or_else (fm_language fm) ''general'',
                   p_framework = fm_framework fm,
                   p_goodExample = fst (extractExamples (drop (length (m_text m)) sec)),
                   p_badExample = snd (extractExamples (drop (length (m_text m)) sec)),
                   p_rationale = extractSection (drop (length (m_text m)) sec) ''rationale'',
                   p_lintRules = extractLintRules (drop (length (m_text m)) sec),
                   p_tags = extractTags (drop (length (m_text m)) sec) fm\<rparr>"
    by (simp add: parse_section_def Let_def)
  with Some show ?thesis by simp
qed

subsection \<open>The end-to-end scenario\<close>

text \<open>
  C2: the document \<open>"## Use const\n\nPrefer const.\n\nGood:\n```js\nconst x=1;\n```\n"\<close>
  with no front matter yields exactly one practice, with title "Use const", id "use-const",
  category "general", severity "suggestion", description "Prefer const.", good example
  "const x=1;", no bad example, and the tag "js" (its only tag; it has no rationale and no
  lint rule).
\<close>

theorem C2_use_const_scenario:
  "parsePractices
     ''## Use const\<newline>\<newline>Prefer const.\<newline>\<newline>Good:\<newline>```js\<newline>const x=1;\<newline>```\<newline>''
     no_frontmatter =
   [\<lparr>p_id = ''use-const'', p_title = ''Use const'', p_description = ''Prefer const.'',
     p_category = ''general'', p_severity = ''suggestion'', p_language = ''general'',
     p_framework = None, p_goodExample = Some ''const x=1;'', p_badExample = None,
     p_rationale = None, p_lintRules = [], p_tags = [''js'']\<rparr>]"
  by code_simp

subsection \<open>Letters and their case\<close>

lemma of_char_less_256: "(of_char c :: nat) < 256"
  by (cases c) (simp add: of_char_def)

lemma lower_char_small_aux:
  assumes k: "97 \<le> (of_char k :: nat)" "(of_char k :: nat) \<le> 122"
    and K: "(of_char K :: nat) + 32 = of_char k"
  shows "(lower_char c = k) = (c = k \<or> c = K)"
proof -
  define n m M :: nat where "n = of_char c" and "m = of_char k" and "M = of_char K"
  have ck: "(c = k) = (n = m)" unfolding n_def m_def by (simp add: of_char_eq_iff)
  have cK: "(c = K) = (n = M)" unfolding n_def M_def by (simp add: of_char_eq_iff)
  have up: "(char_of (n + 32) = k) = (n + 32 = m)" if "n + 32 < 256"
  proof -
    have "(char_of (n + 32) = k) = (of_char (char_of (n + 32) :: char) = (of_char k :: nat))"
      by (simp only: of_char_eq_iff)
    also have "\<dots> = (n + 32 = m)" using that by (simp add: m_def)
    finally show ?thesis .
  qed
  from k K have km: "97 \<le> m" "m \<le> 122" "M + 32 = m" by (simp_all add: m_def M_def)
  show ?thesis
  proof (cases "(65 \<le> n \<and> n \<le> 90) \<or> (192 \<le> n \<and> n \<le> 222 \<and> n \<noteq> 215)")
    case True
    then have "lower_char c = char_of (n + 32)" by (simp add: lower_char_def Let_def n_def)
    moreover from True have "n + 32 < 256" by auto
    ultimately have "(lower_char c = k) = (n + 32 = m)" using up by simp
    also have "\<dots> = (n = m \<or> n = M)" using True km by arith
    finally show ?thesis unfolding ck cK .
  next
    case False
    then have "lower_char c = c" unfolding n_def by (auto simp: lower_char_def Let_def)
    then have "(lower_char c = k) = (n = m)" using ck by simp
    also have "\<dots> = (n = m \<or> n = M)" using False km by arith
    finally show ?thesis unfolding ck cK .
  qed
qed

lemma small_letter_code:
  "k \<in> set small_letters \<Longrightarrow> 97 \<le> (of_char k :: nat) \<and> (of_char k :: nat) \<le> 122"
  by (simp add: small_letters_def) (elim disjE; simp)

lemma small_letter_other:
  "k \<in> set small_letters \<Longrightarrow> (of_char (other_case k) :: nat) + 32 = of_char k"
  by (simp add: small_letters_def) (elim disjE; simp add: other_case_def)

lemma small_letter_same:
  "k \<in> set small_letters \<Longrightarrow> same_letter c k = (c = k \<or> c = other_case k)"
  by (simp add: small_letters_def)
     (elim disjE; simp add: other_case_def same_letter_def small_letters_def capital_letters_def)

lemma lower_char_small:
  assumes "k \<in> set small_letters"
  shows "(lower_char c = k) = same_letter c k"
proof -
  from small_letter_code [OF assms] small_letter_other [OF assms]
  have "(lower_char c = k) = (c = k \<or> c = other_case k)"
    by (intro lower_char_small_aux) simp_all
  with small_letter_same [OF assms] show ?thesis by simp
qed

lemma startsWith_lower:
  assumes "\<And>c x. x \<in> set k \<Longrightarrow> (lower_char c = x) = same_letter c x"
  shows "startsWith (toLowerCase s) k = starts_ci s k"
  using assms
proof (induction s k rule: starts_ci.induct)
  case (1 s)
  show ?case by (simp add: toLowerCase_def)
next
  case (2 k ks)
  show ?case by (simp add: toLowerCase_def)
next
  case (3 c cs k ks)
  have "startsWith (toLowerCase cs) ks = starts_ci cs ks"
    by (rule "3.IH") (simp add: "3.prems")
  moreover have "(lower_char c = k) = same_letter c k"
    by (rule "3.prems") simp
  ultimately show ?case by (simp add: toLowerCase_def)
qed

lemma includes_lower:
  assumes "\<And>c x. x \<in> set k \<Longrightarrow> (lower_char c = x) = same_letter c x"
  shows "js_includes (toLowerCase s) k = occurs_ci s k"
proof (induction s)
  case Nil
  show ?case by (simp add: toLowerCase_def)
next
  case (Cons c cs)
  have "startsWith (toLowerCase (c # cs)) k = starts_ci (c # cs) k"
    using assms by (rule startsWith_lower)
  with Cons show ?case by (simp add: toLowerCase_def)
qed

lemma includes_lower_small:
  "set k \<subseteq> set small_letters \<Longrightarrow> js_includes (toLowerCase s) k = occurs_ci s k"
proof (rule includes_lower)
  fix c x assume "set k \<subseteq> set small_letters" and "x \<in> set k"
  then have "x \<in> set small_letters" by blast
  then show "(lower_char c = x) = same_letter c x" by (rule lower_char_small)
qed

lemma first_rule_lower:
  assumes "\<forall>r \<in> set rules. \<forall>k \<in> set (snd r). set k \<subseteq> set small_letters"
  shows "first_rule rules (toLowerCase text) = first_rule_ci rules text"
proof -
  have "find (\<lambda>(label, keywords). \<exists>k \<in> set keywords. js_includes (toLowerCase text) k) rules
          = find (\<lambda>(label, keywords). \<exists>k \<in> set keywords. occurs_ci text k) rules"
    using assms
  proof (induction rules)
    case Nil
    show ?case by simp
  next
    case (Cons r rules)
    obtain lab kws where r: "r = (lab, kws)" by (cases r)
    from Cons.prems r have "\<forall>k \<in> set kws. set k \<subseteq> set small_letters" by simp
    then have "(\<exists>k \<in> set kws. js_includes (toLowerCase text) k)
                 = (\<exists>k \<in> set kws. occurs_ci text k)"
      by (simp add: includes_lower_small)
    moreover from Cons have
      "find (\<lambda>(label, keywords). \<exists>k \<in> set keywords. js_includes (toLowerCase text) k) rules
         = find (\<lambda>(label, keywords). \<exists>k \<in> set keywords. occurs_ci text k) rules"
      by simp
    ultimately show ?case by (simp add: r)
  qed
  then show ?thesis by (simp add: first_rule_def first_rule_ci_def)
qed

lemma category_keywords_small:
  "\<forall>r \<in> set category_rules. \<forall>k \<in> set (snd r). set k \<subseteq> set small_letters"
  by (simp add: category_rules_def small_letters_def)

subsection \<open>Category inference\<close>

lemma extractCategory_table:
  "\<not> truthy (fm_category fm) \<Longrightarrow>
   extractCategory title content fm =
     (case first_rule category_rules (toLowerCase (title @ '' '' @ content)) of
        Some category \<Rightarrow> category
      | None \<Rightarrow> ''general'')"
  by (simp add: extractCategory_def first_rule_def category_rules_def Let_def)

lemma parsePractices_section:
  "p \<in> set (parsePractices body fm) \<Longrightarrow>
     \<exists>sec \<in> set (js_split h2_separator body). parse_section fm sec = Some p"
  by (auto simp: parsePractices_def List.map_filter_def)

text \<open>
  C3: when the front matter declares a category (a non-empty value), that value is the
  category of every section, verbatim, whatever the heading and the body contain, so every
  practice of the document has it; otherwise the category is that of the first rule of the
  ordered table \<open>category_rules\<close> (naming, formatting, architecture, testing, security,
  performance, documentation, error-handling, logging, dependency-management) one of whose
  keywords occurs, in small or capital letters, in the text made of the heading text, a
  space and the section body; and \<open>general\<close> when no rule applies. The category of a
  practice that is emitted is the one inferred from its own heading and its own body: the
  heading is the trimmed text of the heading line of its section, and the body is the
  section after that line.
\<close>

theorem C3_category_inference:
  "(\<forall>c. fm_category fm = Some c \<and> c \<noteq> [] \<longrightarrow>
      extractCategory title content fm = c \<and>
      (\<forall>p \<in> set (parsePractices body fm). p_category p = c)) \<and>
   (\<not> truthy (fm_category fm) \<longrightarrow>
      extractCategory title content fm =
        (case first_rule_ci category_rules (title @ '' '' @ content) of
           Some category \<Rightarrow> category
         | None \<Rightarrow> ''general'')) \<and>
   (\<forall>p. parse_section fm sec = Some p \<longrightarrow>
      (\<exists>m. js_match_start heading_rx sec = Some m
         \<and> p_title p = trim (group1 m)
         \<and> p_category p = extractCategory (trim (group1 m)) (drop (length (m_text m)) sec) fm)) \<and>
   (\<forall>p \<in> set (parsePractices body fm).
      \<exists>sec \<in> set (js_split h2_separator body). parse_section fm sec = Some p)"
proof (intro conjI allI impI)
  fix c assume c: "fm_category fm = Some c \<and> c \<noteq> []"
  then have verbatim: "extractCategory t s fm = c" for t s
    by (simp add: extractCategory_def truthy_def)
  then show "extractCategory title content fm = c" .
  show "\<forall>p \<in> set (parsePractices body fm). p_category p = c"
  proof
    fix p assume "p \<in> set (parsePractices body fm)"
    then obtain sec where "parse_section fm sec = Some p"
      using parsePractices_member by blast
    then obtain t s where "p_category p = extractCategory t s fm"
      using parse_section_SomeD by blast
    with verbatim show "p_category p = c" by simp
  qed
next
  assume "\<not> truthy (fm_category fm)"
  then have "extractCategory title content fm =
        (case first_rule category_rules (toLowerCase (title @ '' '' @ content)) of
           Some category \<Rightarrow> category
         | None \<Rightarrow> ''general'')"
    by (rule extractCategory_table)
  then show "extractCategory title content fm =
        (case first_rule_ci category_rules (title @ '' '' @ content) of
           Some category \<Rightarrow> category
         | None \<Rightarrow> ''general'')"
    by (simp only: first_rule_lower [OF category_keywords_small])
next
  fix p assume "parse_section fm sec = Some p"
  from parse_section_SomeD [OF this] obtain m where
    "js_match_start heading_rx sec = Some m" "p_title p = trim (group1 m)"
    "p_category p = extractCategory (p_title p) (drop (length (m_text m)) sec) fm"
    by blast
  then have "js_match_start heading_rx sec = Some m
         \<and> p_title p = trim (group1 m)
         \<and> p_category p = extractCategory (trim (group1 m)) (drop (length (m_text m)) sec) fm"
    by simp
  then show "\<exists>m. js_match_start heading_rx sec = Some m
         \<and> p_title p = trim (group1 m)
         \<and> p_category p = extractCategory (trim (group1 m)) (drop (length (m_text m)) sec) fm"
    by blast
next
  show "\<forall>p \<in> set (parsePractices body fm).
      \<exists>sec \<in> set (js_split h2_separator body). parse_section fm sec = Some p"
    using parsePractices_section by blast
qed

theorem C3_category_inference_witness:
  "fm_category (no_frontmatter\<lparr>fm_category := Some ''security''\<rparr>) = Some ''security''
   \<and> ''security'' \<noteq> []
   \<and> map p_category (parsePractices ''## Unit tests\<newline>x\<newline>## B\<newline>y\<newline>''
        (no_frontmatter\<lparr>fm_category := Some ''security''\<rparr>)) = [''security'', ''security'']
   \<and> \<not> truthy (fm_category no_frontmatter)
   \<and> extractCategory ''NAMING Things'' ''x'' no_frontmatter = ''naming''
   \<and> extractCategory ''Unit Tests'' ''THROW Errors'' no_frontmatter = ''testing''
   \<and> extractCategory ''A'' ''Use MOCKS'' no_frontmatter = ''testing''
   \<and> extractCategory ''A'' ''b'' no_frontmatter = ''general''
   \<and> (\<exists>p. parse_section no_frontmatter ''## Error Handling\<newline>Use Try.\<newline>'' = Some p
          \<and> p_title p = ''Error Handling''
          \<and> p_category p = ''error-handling'')
   \<and> map p_title (parsePractices ''## Error Handling\<newline>Use Try.\<newline>## LOGS\<newline>y\<newline>'' no_frontmatter)
        = [''Error Handling'', ''LOGS'']
   \<and> map p_category (parsePractices ''## Error Handling\<newline>Use Try.\<newline>## LOGS\<newline>y\<newline>'' no_frontmatter)
        = [''error-handling'', ''logging'']"
proof -
  let ?fm = "no_frontmatter\<lparr>fm_category := Some ''security''\<rparr>"
  let ?body = "''## Unit tests\<newline>x\<newline>## B\<newline>y\<newline>''"
  let ?sec = "''## Error Handling\<newline>Use Try.\<newline>''"
  let ?doc = "''## Error Handling\<newline>Use Try.\<newline>## LOGS\<newline>y\<newline>''"
  note C3 = C3_category_inference
  have len: "length (parsePractices ?body ?fm) = 2"
    by code_simp
  have h: "fm_category ?fm = Some ''security'' \<and> ''security'' \<noteq> []"
    by (simp add: no_frontmatter_def)
  have n: "\<not> truthy (fm_category no_frontmatter)"
    by (simp add: no_frontmatter_def truthy_def)
  from C3 [of ?fm "''A''" "''b''" ?body "[]"] h
  have all: "\<forall>p \<in> set (parsePractices ?body ?fm). p_category p = ''security''"
    by blast
  have "map p_category (parsePractices ?body ?fm)
          = replicate (length (parsePractices ?body ?fm)) ''security''"
    using all by (simp add: map_replicate_const[symmetric] cong: map_cong)
  then have m: "map p_category (parsePractices ?body ?fm) = [''security'', ''security'']"
    by (simp add: len numeral_2_eq_2)
  have t1: "first_rule_ci category_rules (''NAMING Things'' @ '' '' @ ''x'') = Some ''naming''"
    by code_simp
  have t2: "first_rule_ci category_rules (''Unit Tests'' @ '' '' @ ''THROW Errors'')
              = Some ''testing''"
    by code_simp
  have t3: "first_rule_ci category_rules (''A'' @ '' '' @ ''Use MOCKS'') = Some ''testing''"
    by code_simp
  have t4: "first_rule_ci category_rules (''A'' @ '' '' @ ''b'') = None"
    by code_simp
  have t5: "first_rule_ci category_rules (''Error Handling'' @ '' '' @ ''Use Try.\<newline>'')
              = Some ''error-handling''"
    by code_simp
  from C3 [of no_frontmatter "''NAMING Things''" "''x''" "[]" "[]"] n t1
  have e1: "extractCategory ''NAMING Things'' ''x'' no_frontmatter = ''naming''"
    by simp
  from C3 [of no_frontmatter "''Unit Tests''" "''THROW Errors''" "[]" "[]"] n t2
  have e2: "extractCategory ''Unit Tests'' ''THROW Errors'' no_frontmatter = ''testing''"
    by simp
  from C3 [of no_frontmatter "''A''" "''Use MOCKS''" "[]" "[]"] n t3
  have e3: "extractCategory ''A'' ''Use MOCKS'' no_frontmatter = ''testing''"
    by simp
  from C3 [of no_frontmatter "''A''" "''b''" "[]" "[]"] n t4
  have e4: "extractCategory ''A'' ''b'' no_frontmatter = ''general''"
    by simp
  from C3 [of no_frontmatter "''Error Handling''" "''Use Try.\<newline>''" "[]" "[]"] n t5
  have e5: "extractCategory ''Error Handling'' ''Use Try.\<newline>'' no_frontmatter
              = ''error-handling''"
    by simp
  have d: "parse_section no_frontmatter ?sec \<noteq> None"
    by code_simp
  have hm: "js_match_start heading_rx ?sec
             = Some \<lparr>m_index = 0, m_text = ''## Error Handling\<newline>'',
                     m_group = Some ''Error Handling''\<rparr>"
    by code_simp
  have tr: "trim (group1 \<lparr>m_index = 0, m_text = ''## Error Handling\<newline>'',
                     m_group = Some ''Error Handling''\<rparr>) = ''Error Handling''"
    by code_simp
  from d obtain p where p: "parse_section no_frontmatter ?sec = Some p" by blast
  with C3 [of no_frontmatter "[]" "[]" "[]" ?sec]
  obtain m' where m': "js_match_start heading_rx ?sec = Some m'"
    and pt: "p_title p = trim (group1 m')"
    and pc: "p_category p
               = extractCategory (trim (group1 m')) (drop (length (m_text m')) ?sec) no_frontmatter"
    by blast
  from m' hm have m'_eq: "m' = \<lparr>m_index = 0, m_text = ''## Error Handling\<newline>'',
                     m_group = Some ''Error Handling''\<rparr>"
    by simp
  have pt': "p_title p = ''Error Handling''"
    unfolding pt m'_eq by (rule tr)
  have "p_category p
          = extractCategory ''Error Handling'' (drop (length ''## Error Handling\<newline>'') ?sec)
              no_frontmatter"
    unfolding pc m'_eq tr by simp
  also have "drop (length ''## Error Handling\<newline>'') ?sec = ''Use Try.\<newline>''" by simp
  finally have "p_category p = ''error-handling''" using e5 by simp
  with p pt' have e6: "\<exists>p. parse_section no_frontmatter ?sec = Some p
          \<and> p_title p = ''Error Handling'' \<and> p_category p = ''error-handling''"
    by blast
  have e7: "map p_title (parsePractices ?doc no_frontmatter) = [''Error Handling'', ''LOGS'']"
    by code_simp
  have e8: "map p_category (parsePractices ?doc no_frontmatter)
              = [''error-handling'', ''logging'']"
    by code_simp
  from h n m e1 e2 e3 e4 e6 e7 e8 show ?thesis by (intro conjI) simp_all
qed

subsection \<open>Severity inference\<close>

lemma extractSeverity_table:
  "\<not> truthy (fm_severity fm) \<Longrightarrow>
   extractSeverity content fm =
     (case first_rule severity_tiers (toLowerCase content) of
        Some severity \<Rightarrow> severity
      | None \<Rightarrow> ''suggestion'')"
  by (simp add: extractSeverity_def first_rule_def severity_tiers_def Let_def)

text \<open>
  C4: when the front matter declares a severity (a non-empty value), it is the severity of
  the section; otherwise the severity is the label of the first tier of the ordered table
  \<open>severity_tiers\<close> (must/required/always: error; should/recommended: warning;
  could/consider/may: suggestion) one of whose markers occurs in the lower-cased section
  body, and \<open>suggestion\<close> when none occurs. So a body with both "must" and "should" is an
  error, and a body with "should" and no marker of the error tier is a warning. The text
  that is scanned is the section after its heading line: the heading is not part of it.
\<close>

theorem C4_severity_inference:
  "(\<forall>s. fm_severity fm = Some s \<and> s \<noteq> [] \<longrightarrow> extractSeverity content fm = s) \<and>
   (\<not> truthy (fm_severity fm) \<longrightarrow>
      extractSeverity content fm =
        (case first_rule severity_tiers (toLowerCase content) of
           Some severity \<Rightarrow> severity
         | None \<Rightarrow> ''suggestion'') \<and>
      (js_includes (toLowerCase content) ''must'' \<and> js_includes (toLowerCase content) ''should''
         \<longrightarrow> extractSeverity content fm = ''error'') \<and>
      (js_includes (toLowerCase content) ''should''
         \<and> \<not> (\<exists>k \<in> set [''must'', ''required'', ''always'']. js_includes (toLowerCase content) k)
         \<longrightarrow> extractSeverity content fm = ''warning'')) \<and>
   (\<forall>p. parse_section fm sec = Some p \<longrightarrow>
      (\<exists>m. js_match_start heading_rx sec = Some m
         \<and> p_severity p = extractSeverity (drop (length (m_text m)) sec) fm))"
proof (intro conjI allI impI)
  fix s assume "fm_severity fm = Some s \<and> s \<noteq> []"
  then show "extractSeverity content fm = s"
    by (simp add: extractSeverity_def truthy_def)
next
  assume "\<not> truthy (fm_severity fm)"
  then show "extractSeverity content fm =
        (case first_rule severity_tiers (toLowerCase content) of
           Some severity \<Rightarrow> severity
         | None \<Rightarrow> ''suggestion'')"
    by (rule extractSeverity_table)
next
  assume "\<not> truthy (fm_severity fm)"
    and "js_includes (toLowerCase content) ''must'' \<and> js_includes (toLowerCase content) ''should''"
  then show "extractSeverity content fm = ''error''"
    by (simp add: extractSeverity_def)
next
  assume "\<not> truthy (fm_severity fm)"
    and "js_includes (toLowerCase content) ''should''
         \<and> \<not> (\<exists>k \<in> set [''must'', ''required'', ''always'']. js_includes (toLowerCase content) k)"
  then show "extractSeverity content fm = ''warning''"
    by (simp add: extractSeverity_def)
next
  fix p assume "parse_section fm sec = Some p"
  then show "\<exists>m. js_match_start heading_rx sec = Some m
         \<and> p_severity p = extractSeverity (drop (length (m_text m)) sec) fm"
    using parse_section_SomeD by blast
qed

theorem C4_severity_inference_witness:
  "fm_severity (no_frontmatter\<lparr>fm_severity := Some ''info''\<rparr>) = Some ''info'' \<and> ''info'' \<noteq> []
   \<and> extractSeverity ''You must.'' (no_frontmatter\<lparr>fm_severity := Some ''info''\<rparr>) = ''info''
   \<and> \<not> truthy (fm_severity no_frontmatter)
   \<and> js_includes (toLowerCase ''It Should, it MUST.'') ''must''
   \<and> js_includes (toLowerCase ''It Should, it MUST.'') ''should''
   \<and> extractSeverity ''It Should, it MUST.'' no_frontmatter = ''error''
   \<and> js_includes (toLowerCase ''You should use X.'') ''should''
   \<and> \<not> (\<exists>k \<in> set [''must'', ''required'', ''always''].
            js_includes (toLowerCase ''You should use X.'') k)
   \<and> extractSeverity ''You should use X.'' no_frontmatter = ''warning''
   \<and> extractSeverity ''plain\<newline>'' no_frontmatter = ''suggestion''
   \<and> (\<exists>p. parse_section no_frontmatter ''## You must\<newline>plain\<newline>'' = Some p
          \<and> p_severity p = ''suggestion'')"
proof -
  let ?fm = "no_frontmatter\<lparr>fm_severity := Some ''info''\<rparr>"
  let ?doc = "''## You must\<newline>plain\<newline>''"
  have h: "fm_severity ?fm = Some ''info'' \<and> ''info'' \<noteq> []"
    by (simp add: no_frontmatter_def)
  have n: "\<not> truthy (fm_severity no_frontmatter)"
    by (simp add: no_frontmatter_def truthy_def)
  have a: "js_includes (toLowerCase ''It Should, it MUST.'') ''must''
           \<and> js_includes (toLowerCase ''It Should, it MUST.'') ''should''"
    by code_simp
  have b: "js_includes (toLowerCase ''You should use X.'') ''should''
           \<and> \<not> (\<exists>k \<in> set [''must'', ''required'', ''always''].
                    js_includes (toLowerCase ''You should use X.'') k)"
    by code_simp
  have c: "first_rule severity_tiers (toLowerCase ''plain\<newline>'') = None"
    by code_simp
  have d: "parse_section no_frontmatter ?doc \<noteq> None"
    by code_simp
  have m: "js_match_start heading_rx ?doc
             = Some \<lparr>m_index = 0, m_text = ''## You must\<newline>'', m_group = Some ''You must''\<rparr>"
    by code_simp
  from C4_severity_inference [of ?fm "''You must.''" "[]"] h
  have e1: "extractSeverity ''You must.'' ?fm = ''info''" by blast
  from C4_severity_inference [of no_frontmatter "''It Should, it MUST.''" "[]"] n a
  have e2: "extractSeverity ''It Should, it MUST.'' no_frontmatter = ''error''" by blast
  from C4_severity_inference [of no_frontmatter "''You should use X.''" "[]"] n b
  have e3: "extractSeverity ''You should use X.'' no_frontmatter = ''warning''" by blast
  from C4_severity_inference [of no_frontmatter "''plain\<newline>''" "[]"] n
  have "extractSeverity ''plain\<newline>'' no_frontmatter =
        (case first_rule severity_tiers (toLowerCase ''plain\<newline>'') of
           Some severity \<Rightarrow> severity | None \<Rightarrow> ''suggestion'')" by blast
  with c have e4: "extractSeverity ''plain\<newline>'' no_frontmatter = ''suggestion''"
    by simp
  from d obtain p where p: "parse_section no_frontmatter ?doc = Some p" by blast
  with C4_severity_inference [of no_frontmatter "[]" ?doc]
  obtain m' where "js_match_start heading_rx ?doc = Some m'"
    and "p_severity p = extractSeverity (drop (length (m_text m')) ?doc) no_frontmatter"
    by blast
  with m have "p_severity p
                 = extractSeverity (drop (length ''## You must\<newline>'') ?doc) no_frontmatter"
    by simp
  also have "drop (length ''## You must\<newline>'') ?doc = ''plain\<newline>''" by simp
  finally have "p_severity p = ''suggestion''" using e4 by simp
  with p have e5: "\<exists>p. parse_section no_frontmatter ?doc = Some p \<and> p_severity p = ''suggestion''"
    by blast
  from h n a b e1 e2 e3 e4 e5 show ?thesis by blast
qed

subsection \<open>One practice per heading\<close>

text \<open>
  C1 (the source departs from the claim): the separator pattern \<open>/\n(?=## )/\<close> removes
  the newline in front of every heading line, and the heading pattern \<open>/^## (.+)\n/\<close>
  requires a newline after the heading text. A heading line directly followed by the next
  heading line is therefore left without its newline and yields no practice: the body
  \<open>"## A\n## B\nx\n"\<close> has the two headings A and B and yields the single practice B. For
  the same reason a heading on the last line of a body that does not end in a newline is
  dropped: \<open>"## A\nx\n## B"\<close> yields the practice A only.
\<close>

theorem C1_adjacent_heading_dropped:
  "js_split h2_separator ''## A\<newline>## B\<newline>x\<newline>'' = [''## A'', ''## B\<newline>x\<newline>'']
   \<and> parse_section no_frontmatter ''## A'' = None
   \<and> map p_title (parsePractices ''## A\<newline>## B\<newline>x\<newline>'' no_frontmatter) = [''B'']
   \<and> parsePractices ''## A\<newline>x\<newline>## B'' no_frontmatter
       = parsePractices ''## A\<newline>x\<newline>'' no_frontmatter
   \<and> map p_title (parsePractices ''## A\<newline>x\<newline>'' no_frontmatter) = [''A'']"
  by code_simp

subsection \<open>Language of a practice document\<close>

text \<open>
  C6 (the source departs from the claim): \<open>parsePractices\<close> already replaces a missing
  front-matter language by \<open>general\<close>, so in \<open>practice.language || this.config.language ||
  'general'\<close> the configured language is never reached. For a source configured with the
  language \<open>typescript\<close> and a document without front matter, the practice document has
  the language \<open>general\<close>, while the overview document of the same file, which reads the
  front matter directly, has the language \<open>typescript\<close>.
\<close>

theorem C6_config_language_unused:
  "(case loadPracticeDocument sample_config (sample_env plain_matter) Map.empty () ''/p/a.md'' of
      (Inl err, ms) \<Rightarrow> False
    | (Inr (docs, c), ms) \<Rightarrow>
        map (\<lambda>d. (doc_type d, doc_language d)) docs
          = [(''practice'', ''general''), (''style-guide'', ''typescript'')])"
  by code_simp

subsection \<open>Lint rules\<close>








subsection \<open>Practice identifiers\<close>

text \<open>
  C8 (the source departs from the claim): the identifier of a practice is the slug of its
  heading and nothing else, and the source never compares two slugs. The body
  \<open>"## A\nx\n## A\ny\n"\<close> has two sections with the heading A: both practices have the
  identifier \<open>a\<close>. For the file \<open>/p/d.md\<close> with that body, \<open>generateId\<close>, which its doc
  comment calls "Generate unique ID", gives both practice documents the identifier
  \<open>team:d.md#a\<close>, and \<open>documentCache.set\<close> replaces the first by the second: the cache
  answers \<open>team:d.md#a\<close> with the document of the second section, and the document of the
  first section can no longer be fetched.
\<close>

theorem C8_duplicate_ids:
  "map p_id (parsePractices ''## A\<newline>x\<newline>## A\<newline>y\<newline>'' no_frontmatter) = [''a'', ''a'']
   \<and> \<not> distinct (map p_id (parsePractices ''## A\<newline>x\<newline>## A\<newline>y\<newline>'' no_frontmatter))
   \<and> (case loadPracticeDocument sample_config (sample_env plain_matter) Map.empty () ''/p/d.md'' of
         (Inl err, ms) \<Rightarrow> False
       | (Inr (docs, c), ms) \<Rightarrow>
           map (\<lambda>d. (doc_id d, doc_content d)) docs
             = [(''team:d.md#a'', ''# A\<newline>\<newline>x''), (''team:d.md#a'', ''# A\<newline>\<newline>y''),
                (''team:d.md'', ''## A\<newline>x\<newline>## A\<newline>y\<newline>'')]
           \<and> map_option doc_content (c ''team:d.md#a'') = Some ''# A\<newline>\<newline>y'')"
  by code_simp

subsection \<open>A front-matter splitter that raises\<close>

lemma loadPracticeDocument_split:
  "readFile e f = Inr content \<Longrightarrow> matter e ms content = (Inr (fm, body), ms') \<Longrightarrow>
     loadPracticeDocument cfg e c ms f
       = (Inr (body_documents cfg e f fm body, cache_all (body_documents cfg e f fm body) c), ms')"
  by (simp add: loadPracticeDocument_def body_documents_def Let_def)

lemma loadPracticeDocument_raise:
  "readFile e f = Inr content \<Longrightarrow> matter e ms content = (Inl err, ms') \<Longrightarrow>
     loadPracticeDocument cfg e c ms f = (Inl err, ms')"
  by (simp add: loadPracticeDocument_def Let_def)

lemma loadPracticeDocument_unread:
  "readFile e f = Inl err \<Longrightarrow> loadPracticeDocument cfg e c ms f = (Inl err, ms)"
  by (simp add: loadPracticeDocument_def)

lemma fetch_files_outcomes:
  "fs_documents (fetch_files cfg e files st)
     = fs_documents st @ concat (map outcome_documents (file_outcomes cfg e (fs_matter st) files))
   \<and> fs_warnings (fetch_files cfg e files st)
     = fs_warnings st @ concat (map outcome_warnings (file_outcomes cfg e (fs_matter st) files))"
proof (induction files arbitrary: st)
  case Nil
  show ?case by simp
next
  case (Cons f files)
  show ?case
  proof (cases "readFile e f")
    case (Inl err)
    from loadPracticeDocument_unread [OF Inl]
    have "loadPracticeDocument cfg e (fs_cache st) (fs_matter st) f = (Inl err, fs_matter st)" .
    with Inl Cons.IH [of "st\<lparr>fs_matter := fs_matter st,
                               fs_warnings := fs_warnings st @ [(f, err)]\<rparr>"]
    show ?thesis by (simp add: outcome_documents_def outcome_warnings_def)
  next
    case (Inr content)
    obtain res ms' where m: "matter e (fs_matter st) content = (res, ms')"
      by (cases "matter e (fs_matter st) content")
    show ?thesis
    proof (cases res)
      case (Inl err)
      from loadPracticeDocument_raise [OF Inr m [unfolded Inl]]
      have "loadPracticeDocument cfg e (fs_cache st) (fs_matter st) f = (Inl err, ms')" .
      with Inr m Inl Cons.IH [of "st\<lparr>fs_matter := ms',
                                       fs_warnings := fs_warnings st @ [(f, err)]\<rparr>"]
      show ?thesis by (simp add: outcome_documents_def outcome_warnings_def)
    next
      case (Inr y)
      obtain fm body where y: "y = (fm, body)" by (cases y)
      let ?ds = "body_documents cfg e f fm body"
      from loadPracticeDocument_split [OF \<open>readFile e f = Inr content\<close> m [unfolded Inr y]]
      have "loadPracticeDocument cfg e (fs_cache st) (fs_matter st) f
              = (Inr (?ds, cache_all ?ds (fs_cache st)), ms')" .
      with \<open>readFile e f = Inr content\<close> m Inr y
        Cons.IH [of "st\<lparr>fs_documents := fs_documents st @ ?ds,
                          fs_cache := cache_all ?ds (fs_cache st), fs_matter := ms'\<rparr>"]
      show ?thesis by (simp add: outcome_documents_def outcome_warnings_def)
    qed
  qed
qed

lemma file_outcomes_files: "map fst (file_outcomes cfg e ms files) = files"
  by (induction files arbitrary: ms) (auto split: sum.splits prod.splits)

text \<open>
  C9 (as amended): \<open>loadPracticeDocument\<close> calls the front-matter splitter without any
  handler. When a call of the splitter returns metadata and a body, the body is processed
  into the practice documents followed by the overview document. When a call of the
  splitter raises, the error leaves \<open>loadPracticeDocument\<close>; \<open>fetchDocuments\<close> catches it,
  records a warning for the file, emits no document for it, and goes on with the other
  files: every file of the batch is tried, each call of the splitter starting from the
  state the call before has left, and the documents of the batch are those of the files
  whose reading and splitting returned, in the order of the files.
\<close>

theorem C9_splitter_failure_skips_file:
  "(\<forall>content fm body ms'.
      readFile e f = Inr content \<and> matter e ms content = (Inr (fm, body), ms') \<longrightarrow>
        loadPracticeDocument cfg e c ms f
          = (Inr (map (practice_document cfg (relative e f)) (parsePractices body fm)
                  @ [overview_document cfg (relative e f) (basename_md e f) body fm
                       (parsePractices body fm)],
                  cache_all (body_documents cfg e f fm body) c), ms'))
   \<and> (\<forall>content err ms'.
        readFile e f = Inr content \<and> matter e ms content = (Inl err, ms') \<longrightarrow>
          loadPracticeDocument cfg e c ms f = (Inl err, ms'))
   \<and> fs_documents (fetchDocuments cfg e files c ms)
       = concat (map outcome_documents (file_outcomes cfg e ms files))
   \<and> fs_warnings (fetchDocuments cfg e files c ms)
       = concat (map outcome_warnings (file_outcomes cfg e ms files))
   \<and> map fst (file_outcomes cfg e ms files) = files"
proof (intro conjI allI impI)
  fix content fm body ms'
  assume "readFile e f = Inr content \<and> matter e ms content = (Inr (fm, body), ms')"
  then show "loadPracticeDocument cfg e c ms f
          = (Inr (map (practice_document cfg (relative e f)) (parsePractices body fm)
                  @ [overview_document cfg (relative e f) (basename_md e f) body fm
                       (parsePractices body fm)],
                  cache_all (body_documents cfg e f fm body) c), ms')"
    using loadPracticeDocument_split [of e f content ms fm body ms' cfg c]
    by (simp add: body_documents_def)
next
  fix content err ms'
  assume "readFile e f = Inr content \<and> matter e ms content = (Inl err, ms')"
  then show "loadPracticeDocument cfg e c ms f = (Inl err, ms')"
    using loadPracticeDocument_raise [of e f content ms err ms' cfg c] by simp
next
  show "fs_documents (fetchDocuments cfg e files c ms)
       = concat (map outcome_documents (file_outcomes cfg e ms files))"
    using fetch_files_outcomes
      [of cfg e files "\<lparr>fs_documents = [], fs_cache = c, fs_matter = ms, fs_warnings = []\<rparr>"]
    by (simp add: fetchDocuments_def)
  show "fs_warnings (fetchDocuments cfg e files c ms)
       = concat (map outcome_warnings (file_outcomes cfg e ms files))"
    using fetch_files_outcomes
      [of cfg e files "\<lparr>fs_documents = [], fs_cache = c, fs_matter = ms, fs_warnings = []\<rparr>"]
    by (simp add: fetchDocuments_def)
  show "map fst (file_outcomes cfg e ms files) = files"
    by (rule file_outcomes_files)
qed

theorem C9_splitter_failure_skips_file_witness:
  "readFile (sample_env caching_matter) ''/p/a.md'' = Inr ''## A\<newline>x\<newline>''
   \<and> matter (sample_env caching_matter) [] ''## A\<newline>x\<newline>''
       = (Inr (no_frontmatter, ''## A\<newline>x\<newline>''), [''## A\<newline>x\<newline>''])
   \<and> (case loadPracticeDocument sample_config (sample_env caching_matter) Map.empty []
             ''/p/a.md'' of
         (Inl err, ms') \<Rightarrow> False
       | (Inr (ds, c'), ms') \<Rightarrow> map doc_id ds = [''team:a.md#a'', ''team:a.md''])
   \<and> readFile (sample_env caching_matter) ''/p/b.md''
         = Inr ''---\<newline>x: [\<newline>---\<newline>## B\<newline>y\<newline>''
   \<and> matter (sample_env caching_matter) [] ''---\<newline>x: [\<newline>---\<newline>## B\<newline>y\<newline>''
         = (Inl (Error ''YAMLException''), [''---\<newline>x: [\<newline>---\<newline>## B\<newline>y\<newline>''])
   \<and> loadPracticeDocument sample_config (sample_env caching_matter) Map.empty [] ''/p/b.md''
         = (Inl (Error ''YAMLException''), [''---\<newline>x: [\<newline>---\<newline>## B\<newline>y\<newline>''])
   \<and> map doc_id (fs_documents (fetchDocuments sample_config (sample_env caching_matter)
         [''/p/b.md'', ''/p/c.md'', ''/p/a.md''] Map.empty []))
       = [''team:c.md#b'', ''team:c.md'', ''team:a.md#a'', ''team:a.md'']
   \<and> fs_warnings (fetchDocuments sample_config (sample_env caching_matter)
         [''/p/b.md'', ''/p/c.md'', ''/p/a.md''] Map.empty [])
       = [(''/p/b.md'', Error ''YAMLException'')]
   \<and> map doc_id (fs_documents (fetchDocuments sample_config (sample_env caching_matter)
         [''/p/b.md''] Map.empty [''---\<newline>x: [\<newline>---\<newline>## B\<newline>y\<newline>'']))
       = [''team:b.md#b'', ''team:b.md'']
   \<and> fs_warnings (fetchDocuments sample_config (sample_env caching_matter)
         [''/p/b.md''] Map.empty [''---\<newline>x: [\<newline>---\<newline>## B\<newline>y\<newline>'']) = []"
proof -
  let ?e = "sample_env caching_matter"
  let ?a = "''## A\<newline>x\<newline>''"
  let ?b = "''---\<newline>x: [\<newline>---\<newline>## B\<newline>y\<newline>''"
  let ?fs = "[''/p/b.md'', ''/p/c.md'', ''/p/a.md'']"
  note C9 = C9_splitter_failure_skips_file
  have ra: "readFile ?e ''/p/a.md'' = Inr ?a" and rb: "readFile ?e ''/p/b.md'' = Inr ?b"
    by (simp_all add: sample_env_def)
  have ma: "matter ?e [] ?a = (Inr (no_frontmatter, ?a), [?a])"
    and mb: "matter ?e [] ?b = (Inl (Error ''YAMLException''), [?b])"
    by (simp_all add: sample_env_def caching_matter_def)
  have ids: "map doc_id (map (practice_document sample_config (relative ?e ''/p/a.md''))
                 (parsePractices ?a no_frontmatter)
               @ [overview_document sample_config (relative ?e ''/p/a.md'')
                    (basename_md ?e ''/p/a.md'') ?a no_frontmatter
                    (parsePractices ?a no_frontmatter)])
             = [''team:a.md#a'', ''team:a.md'']"
    by code_simp
  from C9 [of ?e "''/p/a.md''" "[]" sample_config Map.empty "[]"] ra ma
  have "loadPracticeDocument sample_config ?e Map.empty [] ''/p/a.md''
          = (Inr (map (practice_document sample_config (relative ?e ''/p/a.md''))
                 (parsePractices ?a no_frontmatter)
               @ [overview_document sample_config (relative ?e ''/p/a.md'')
                    (basename_md ?e ''/p/a.md'') ?a no_frontmatter
                    (parsePractices ?a no_frontmatter)],
               cache_all (body_documents sample_config ?e ''/p/a.md'' no_frontmatter ?a)
                 Map.empty), [?a])"
    by blast
  then have la: "(case loadPracticeDocument sample_config ?e Map.empty [] ''/p/a.md'' of
         (Inl err, ms') \<Rightarrow> False
       | (Inr (ds, c'), ms') \<Rightarrow> map doc_id ds = [''team:a.md#a'', ''team:a.md''])"
    using ids by simp
  from C9 [of ?e "''/p/b.md''" "[]" sample_config Map.empty "[]"] rb mb
  have lb: "loadPracticeDocument sample_config ?e Map.empty [] ''/p/b.md''
              = (Inl (Error ''YAMLException''), [?b])"
    by blast
  have o1: "map doc_id (concat (map outcome_documents (file_outcomes sample_config ?e [] ?fs)))
              = [''team:c.md#b'', ''team:c.md'', ''team:a.md#a'', ''team:a.md'']"
    by code_simp
  have w1: "concat (map outcome_warnings (file_outcomes sample_config ?e [] ?fs))
              = [(''/p/b.md'', Error ''YAMLException'')]"
    by code_simp
  have o2: "map doc_id (concat (map outcome_documents
                (file_outcomes sample_config ?e [?b] [''/p/b.md''])))
              = [''team:b.md#b'', ''team:b.md'']"
    by code_simp
  have w2: "concat (map outcome_warnings (file_outcomes sample_config ?e [?b] [''/p/b.md'']))
              = []"
    by code_simp
  from C9 [of ?e "[]" "[]" sample_config Map.empty ?fs]
  have "fs_documents (fetchDocuments sample_config ?e ?fs Map.empty [])
          = concat (map outcome_documents (file_outcomes sample_config ?e [] ?fs))"
    and "fs_warnings (fetchDocuments sample_config ?e ?fs Map.empty [])
          = concat (map outcome_warnings (file_outcomes sample_config ?e [] ?fs))"
    by blast+
  with o1 w1 have f1: "map doc_id (fs_documents (fetchDocuments sample_config ?e ?fs Map.empty []))
              = [''team:c.md#b'', ''team:c.md'', ''team:a.md#a'', ''team:a.md'']"
    and g1: "fs_warnings (fetchDocuments sample_config ?e ?fs Map.empty [])
              = [(''/p/b.md'', Error ''YAMLException'')]"
    by simp_all
  from C9 [of ?e "[]" "[?b]" sample_config Map.empty "[''/p/b.md'']"]
  have "fs_documents (fetchDocuments sample_config ?e [''/p/b.md''] Map.empty [?b])
          = concat (map outcome_documents (file_outcomes sample_config ?e [?b] [''/p/b.md'']))"
    and "fs_warnings (fetchDocuments sample_config ?e [''/p/b.md''] Map.empty [?b])
          = concat (map outcome_warnings (file_outcomes sample_config ?e [?b] [''/p/b.md'']))"
    by blast+
  with o2 w2 have f2: "map doc_id (fs_documents (fetchDocuments sample_config ?e [''/p/b.md'']
                Map.empty [?b])) = [''team:b.md#b'', ''team:b.md'']"
    and g2: "fs_warnings (fetchDocuments sample_config ?e [''/p/b.md''] Map.empty [?b]) = []"
    by simp_all
  from ra ma la rb mb lb f1 g1 f2 g2 show ?thesis by (intro conjI)
qed

text \<open>
  The first time the splitter is given the document of \<open>/p/b.md\<close> it raises, and the batch
  holds no practice and no overview for that file: the file is skipped, with a warning.
\<close>

theorem C9_file_skipped_counterexample:
  "fs_documents (fetchDocuments sample_config (sample_env caching_matter) [''/p/b.md'']
       Map.empty []) = []
   \<and> fs_warnings (fetchDocuments sample_config (sample_env caching_matter) [''/p/b.md'']
       Map.empty []) = [(''/p/b.md'', Error ''YAMLException'')]"
  by code_simp

subsection \<open>Matches of the patterns\<close>




lemma consumes_rstar: "consumes (rstar P)"
proof -
  have "(c, r) \<in> set (rstar P s) \<Longrightarrow> \<exists>p. s = p @ r" for c r s
  proof (induction s)
    case (Cons ch cs)
    then show ?case by (auto split: if_splits intro: exI [of _ "ch # _"] exI [of _ "[]"])
  qed auto
  then show ?thesis unfolding consumes_def by blast
qed


lemma consumes_rchr: "consumes (rchr P)"
  unfolding consumes_def rchr_def
  by (auto split: list.splits if_splits intro: exI [of _ "[_]"])

lemma rseq_member:
  "(c, r) \<in> set (rseq a b s) \<longleftrightarrow>
     (\<exists>c1 r1 c2. (c1, r1) \<in> set (a s) \<and> (c2, r) \<in> set (b r1)
        \<and> c = keep_group c1 c2)"
  unfolding rseq_def by (auto simp: image_iff) force

lemma consumes_rseq: "consumes a \<Longrightarrow> consumes b \<Longrightarrow> consumes (rseq a b)"
  unfolding consumes_def rseq_member by (metis append.assoc)





lemma consumes_rplus: "consumes (rplus P)"
  by (simp add: rplus_def consumes_rseq consumes_rchr consumes_rstar)








































subsection \<open>Unlabelled examples\<close>



subsection \<open>A block with blank content\<close>



end
